theory Spec2Isabelle
  imports Main
begin

section \<open>Python values and exceptions\<close>

text \<open>
  The module \<^verbatim>\<open>dcm4chee_device.py\<close> handles values that come out of \<^verbatim>\<open>json.loads\<close> or
  from the module parameters: \<^verbatim>\<open>None\<close>, booleans, integers, strings, lists and dictionaries
  with string keys. A dictionary is an association list read with \<open>map_of\<close>. Strings are
  text; Python 2's distinction between \<^verbatim>\<open>str\<close> and \<^verbatim>\<open>unicode\<close> and non-integer JSON numbers
  are outside the model.
\<close>

datatype pyval =
    PNone
  | PBool bool
  | PInt int
  | PStr string
  | PList "pyval list"
  | PDict "(string \<times> pyval) list"

text \<open>
  The exceptions that can leave the module: \<^verbatim>\<open>urllib2.HTTPError\<close> with its status code, any
  other failure of the transport (\<^verbatim>\<open>urllib2.URLError\<close>), \<^verbatim>\<open>ValueError\<close> from \<^verbatim>\<open>json.loads\<close>,
  and the three exceptions of the subscript operator.
\<close>

datatype py_error =
    HTTPError nat
  | URLError
  | ValueError
  | KeyError
  | IndexError
  | TypeError

text \<open>The subscripts the module uses are string literals and the integer \<open>0\<close>.\<close>

datatype pykey = KStr string | KInt int

text \<open>
  \<^verbatim>\<open>v[k]\<close>: a dictionary raises \<^verbatim>\<open>KeyError\<close> for a key it does not hold (an integer is never
  a key of a dictionary with string keys); a list or a string indexed by an integer counts
  negative indices from the end and raises \<^verbatim>\<open>IndexError\<close> out of range; a list or a string
  indexed by a string, and every other value, raises \<^verbatim>\<open>TypeError\<close>.
\<close>

definition py_index :: "nat \<Rightarrow> int \<Rightarrow> nat option" where
  "py_index n i =
     (let j = (if i < 0 then i + int n else i)
      in if 0 \<le> j \<and> j < int n then Some (nat j) else None)"

fun getitem :: "pyval \<Rightarrow> pykey \<Rightarrow> py_error + pyval" where
  "getitem (PDict kvs) (KStr k) =
     (case map_of kvs k of None \<Rightarrow> Inl KeyError | Some v \<Rightarrow> Inr v)"
| "getitem (PDict kvs) (KInt i) = Inl KeyError"
| "getitem (PList xs) (KInt i) =
     (case py_index (length xs) i of None \<Rightarrow> Inl IndexError | Some j \<Rightarrow> Inr (xs ! j))"
| "getitem (PList xs) (KStr k) = Inl TypeError"
| "getitem (PStr s) (KInt i) =
     (case py_index (length s) i of None \<Rightarrow> Inl IndexError | Some j \<Rightarrow> Inr (PStr [s ! j]))"
| "getitem (PStr s) (KStr k) = Inl TypeError"
| "getitem PNone k = Inl TypeError"
| "getitem (PBool b) k = Inl TypeError"
| "getitem (PInt n) k = Inl TypeError"

text \<open>A chain of subscripts \<^verbatim>\<open>v[k1][k2]...\<close>, stopping at the first exception.\<close>

fun subscript :: "pyval \<Rightarrow> pykey list \<Rightarrow> py_error + pyval" where
  "subscript v [] = Inr v"
| "subscript v (k # ks) =
     (case getitem v k of Inl e \<Rightarrow> Inl e | Inr w \<Rightarrow> subscript w ks)"

subsection \<open>Python's \<^verbatim>\<open>==\<close>\<close>

lemma map_of_size:
  "map_of a k = Some v \<Longrightarrow> size v < Suc (size_list (size_prod (\<lambda>_. 0) size) a)"
  by (induction a) (auto split: if_splits)

lemma elem_size: "x \<in> set xs \<Longrightarrow> size x < Suc (size_list size xs)"
  by (induction xs) auto

text \<open>
  \<^verbatim>\<open>a == b\<close> on these values: \<^verbatim>\<open>bool\<close> is a subclass of \<^verbatim>\<open>int\<close>, so \<^verbatim>\<open>True == 1\<close>; lists are
  equal when they have the same length and equal elements; dictionaries are equal when
  they have the same keys and equal values under each key; values of different kinds
  are unequal.
\<close>

function py_eq :: "pyval \<Rightarrow> pyval \<Rightarrow> bool" where
  "py_eq PNone v = (case v of PNone \<Rightarrow> True | _ \<Rightarrow> False)"
| "py_eq (PBool a) v =
     (case v of PBool b \<Rightarrow> a = b | PInt j \<Rightarrow> of_bool a = j | _ \<Rightarrow> False)"
| "py_eq (PInt i) v =
     (case v of PBool b \<Rightarrow> i = of_bool b | PInt j \<Rightarrow> i = j | _ \<Rightarrow> False)"
| "py_eq (PStr s) v = (case v of PStr t \<Rightarrow> s = t | _ \<Rightarrow> False)"
| "py_eq (PList xs) v = (case v of PList ys \<Rightarrow> list_all2 py_eq xs ys | _ \<Rightarrow> False)"
| "py_eq (PDict a) v =
     (case v of
        PDict b \<Rightarrow>
          list_all
            (\<lambda>k. case map_of a k of
                    None \<Rightarrow> False
                  | Some x \<Rightarrow> (case map_of b k of None \<Rightarrow> False | Some y \<Rightarrow> py_eq x y))
            (map fst a @ map fst b)
      | _ \<Rightarrow> False)"
  by pat_completeness auto
termination
proof (relation "measure (\<lambda>(v, w). size v)")
  show "wf (measure (\<lambda>(v, w). size v))"
    by simp
next
  fix xs :: "pyval list" and v :: pyval and x y :: pyval
  assume "x \<in> set xs"
  then show "((x, y), PList xs, v) \<in> measure (\<lambda>(v, w). size v)"
    using elem_size [of x xs] by simp
next
  fix a :: "(string \<times> pyval) list" and v :: pyval and k and x y :: pyval
  assume "map_of a k = Some x"
  then show "((x, y), PDict a, v) \<in> measure (\<lambda>(v, w). size v)"
    using map_of_size [of a k x] by simp
qed

section \<open>The class \<^verbatim>\<open>Device\<close>\<close>

record Device =
  name :: pyval
  host :: pyval
  port :: pyval
  aetitle :: pyval

definition Device_init :: "pyval \<Rightarrow> pyval \<Rightarrow> pyval \<Rightarrow> pyval \<Rightarrow> Device" where
  "Device_init n h p t = \<lparr>name = n, host = h, port = p, aetitle = t\<rparr>"

text \<open>
  \<^verbatim>\<open>Device.from_json\<close>. The standard library's \<^verbatim>\<open>json.loads\<close> is the parameter \<open>loads\<close>, from
  the bytes on the wire (of any type \<open>'b\<close>) to a value or \<^verbatim>\<open>ValueError\<close>. The keyword
  arguments are evaluated in the order they are written, so the first failing subscript
  decides the exception.
\<close>

definition Device_from_json :: "('b \<Rightarrow> py_error + pyval) \<Rightarrow> 'b \<Rightarrow> py_error + Device" where
  "Device_from_json loads string =
     (case loads string of
        Inl e \<Rightarrow> Inl e
      | Inr data \<Rightarrow>
     (case subscript data [KStr ''dicomDeviceName''] of
        Inl e \<Rightarrow> Inl e
      | Inr n \<Rightarrow>
     (case subscript data [KStr ''dicomNetworkConnection'', KInt 0, KStr ''dicomHostname''] of
        Inl e \<Rightarrow> Inl e
      | Inr h \<Rightarrow>
     (case subscript data [KStr ''dicomNetworkConnection'', KInt 0, KStr ''dicomPort''] of
        Inl e \<Rightarrow> Inl e
      | Inr p \<Rightarrow>
     (case subscript data [KStr ''dicomNetworkAE'', KInt 0, KStr ''dicomAETitle''] of
        Inl e \<Rightarrow> Inl e
      | Inr t \<Rightarrow> Inr (Device_init n h p t))))))"

text \<open>The dictionary literal that \<^verbatim>\<open>Device.to_json\<close> hands to \<^verbatim>\<open>json.dumps\<close>.\<close>

definition Device_payload :: "Device \<Rightarrow> pyval" where
  "Device_payload self =
     PDict
       [(''dicomDeviceName'', name self),
        (''dicomInstalled'', PBool True),
        (''dicomNetworkConnection'',
           PList
             [PDict
                [(''cn'', PStr ''dicom''),
                 (''dicomHostname'', host self),
                 (''dicomPort'', port self)]]),
        (''dicomNetworkAE'',
           PList
             [PDict
                [(''dicomAETitle'', aetitle self),
                 (''dicomAssociationInitiator'', PBool True),
                 (''dicomAssociationAcceptor'', PBool True),
                 (''dicomNetworkConnectionReference'',
                    PList [PStr ''/dicomNetworkConnection/0''])]])]"

text \<open>\<^verbatim>\<open>Device.to_json\<close>, with \<^verbatim>\<open>json.dumps\<close> as the parameter \<open>dumps\<close>.\<close>

definition Device_to_json :: "(pyval \<Rightarrow> 'b) \<Rightarrow> Device \<Rightarrow> 'b" where
  "Device_to_json dumps self = dumps (Device_payload self)"

text \<open>\<^verbatim>\<open>self.__dict__\<close>: the four attributes that \<^verbatim>\<open>__init__\<close> sets.\<close>

definition Device_dict :: "Device \<Rightarrow> pyval" where
  "Device_dict self =
     PDict
       [(''name'', name self),
        (''host'', host self),
        (''port'', port self),
        (''aetitle'', aetitle self)]"

definition Device_eq :: "Device \<Rightarrow> Device \<Rightarrow> bool" where
  "Device_eq self other = py_eq (Device_dict self) (Device_dict other)"

definition Device_ne :: "Device \<Rightarrow> Device \<Rightarrow> bool" where
  "Device_ne self other = (\<not> Device_eq self other)"

section \<open>The class \<^verbatim>\<open>DeviceAPI\<close>\<close>

datatype http_method = GET | POST | PUT | DELETE

text \<open>
  A \<^verbatim>\<open>urllib2.Request\<close>: the URL, the body (\<^verbatim>\<open>None\<close> when there is none), the headers
  added, and what \<^verbatim>\<open>get_method\<close> answers.
\<close>

record 'b request =
  full_url :: string
  data :: "'b option"
  headers :: "(string \<times> string) list"
  get_method :: http_method

text \<open>What \<^verbatim>\<open>urllib2.urlopen\<close> returns: a response with a status and a readable body.\<close>

record 'b response =
  status :: nat
  body :: 'b

text \<open>
  Everything beyond \<^verbatim>\<open>urllib2.urlopen\<close> (the network and the archive server) is a
  parameter \<open>srv\<close>: from a state of its own and a request to what \<^verbatim>\<open>urlopen\<close> does with
  it, and the next state. \<^verbatim>\<open>urlopen\<close> returns a response for a success status and raises
  \<^verbatim>\<open>HTTPError\<close> with the status code for any other status the server answers with. The
  world of a run is the state of that environment and the requests sent so far.
\<close>

type_synonym ('s, 'b) transport = "'s \<Rightarrow> 'b request \<Rightarrow> (py_error + 'b response) \<times> 's"

record ('s, 'b) world =
  server :: 's
  sent :: "'b request list"

definition urlopen ::
  "('s, 'b) transport \<Rightarrow> 'b request \<Rightarrow> ('s, 'b) world
     \<Rightarrow> (py_error + 'b response) \<times> ('s, 'b) world" where
  "urlopen srv rq w =
     (case srv (server w) rq of
        (out, s') \<Rightarrow> (out, \<lparr>server = s', sent = sent w @ [rq]\<rparr>))"

record DeviceAPI =
  url :: string

definition DeviceAPI_init :: "string \<Rightarrow> string \<Rightarrow> DeviceAPI" where
  "DeviceAPI_init api_url n = \<lparr>url = api_url @ ''devices'' @ ''/'' @ n\<rparr>"

text \<open>\<^verbatim>\<open>DeviceAPI.__request__\<close>; the defaults \<^verbatim>\<open>data=None\<close> and \<^verbatim>\<open>method='GET'\<close> are passed by the callers.\<close>

definition DeviceAPI_request :: "DeviceAPI \<Rightarrow> 'b option \<Rightarrow> http_method \<Rightarrow> 'b request" where
  "DeviceAPI_request self d m =
     \<lparr>full_url = url self,
      data = d,
      headers = [(''Content-Type'', ''application/json'')],
      get_method = m\<rparr>"

text \<open>
  \<^verbatim>\<open>DeviceAPI.__urlopen__\<close>: only \<^verbatim>\<open>HTTPError\<close> is caught, and only the ignored status code
  turns into \<^verbatim>\<open>None\<close>; every other exception is raised again.
\<close>

definition DeviceAPI_urlopen ::
  "('s, 'b) transport \<Rightarrow> 'b request \<Rightarrow> nat option \<Rightarrow> ('s, 'b) world
     \<Rightarrow> (py_error + 'b response option) \<times> ('s, 'b) world" where
  "DeviceAPI_urlopen srv rq ignore_error w =
     (case urlopen srv rq w of
        (Inl (HTTPError c), w') \<Rightarrow>
          if Some c = ignore_error then (Inr None, w') else (Inl (HTTPError c), w')
      | (Inl e, w') \<Rightarrow> (Inl e, w')
      | (Inr resp, w') \<Rightarrow> (Inr (Some resp), w'))"

text \<open>
  A response object is always true in a condition, so \<^verbatim>\<open>True if response else False\<close>
  tells a response from \<^verbatim>\<open>None\<close>.
\<close>

definition DeviceAPI_create ::
  "('s, 'b) transport \<Rightarrow> (pyval \<Rightarrow> 'b) \<Rightarrow> DeviceAPI \<Rightarrow> Device \<Rightarrow> ('s, 'b) world
     \<Rightarrow> (py_error + bool) \<times> ('s, 'b) world" where
  "DeviceAPI_create srv dumps self device w =
     (let rq = DeviceAPI_request self (Some (Device_to_json dumps device)) POST
      in case DeviceAPI_urlopen srv rq (Some 409) w of
           (Inl e, w') \<Rightarrow> (Inl e, w')
         | (Inr resp, w') \<Rightarrow> (Inr (if resp \<noteq> None then True else False), w'))"

definition DeviceAPI_read ::
  "('s, 'b) transport \<Rightarrow> ('b \<Rightarrow> py_error + pyval) \<Rightarrow> DeviceAPI \<Rightarrow> ('s, 'b) world
     \<Rightarrow> (py_error + Device option) \<times> ('s, 'b) world" where
  "DeviceAPI_read srv loads self w =
     (let rq = DeviceAPI_request self None GET
      in case DeviceAPI_urlopen srv rq (Some 404) w of
           (Inl e, w') \<Rightarrow> (Inl e, w')
         | (Inr None, w') \<Rightarrow> (Inr None, w')
         | (Inr (Some resp), w') \<Rightarrow>
             (case Device_from_json loads (body resp) of
                Inl e \<Rightarrow> (Inl e, w')
              | Inr d \<Rightarrow> (Inr (Some d), w')))"

definition DeviceAPI_update ::
  "('s, 'b) transport \<Rightarrow> (pyval \<Rightarrow> 'b) \<Rightarrow> DeviceAPI \<Rightarrow> Device \<Rightarrow> ('s, 'b) world
     \<Rightarrow> (py_error + bool) \<times> ('s, 'b) world" where
  "DeviceAPI_update srv dumps self device w =
     (let rq = DeviceAPI_request self (Some (Device_to_json dumps device)) PUT
      in case DeviceAPI_urlopen srv rq (Some 404) w of
           (Inl e, w') \<Rightarrow> (Inl e, w')
         | (Inr resp, w') \<Rightarrow> (Inr (if resp \<noteq> None then True else False), w'))"

definition DeviceAPI_delete ::
  "('s, 'b) transport \<Rightarrow> DeviceAPI \<Rightarrow> ('s, 'b) world
     \<Rightarrow> (py_error + bool) \<times> ('s, 'b) world" where
  "DeviceAPI_delete srv self w =
     (let rq = DeviceAPI_request self None DELETE
      in case DeviceAPI_urlopen srv rq (Some 404) w of
           (Inl e, w') \<Rightarrow> (Inl e, w')
         | (Inr resp, w') \<Rightarrow> (Inr (if resp \<noteq> None then True else False), w'))"

section \<open>The entry point\<close>

text \<open>
  The parameters \<^verbatim>\<open>AnsibleModule\<close> hands over, with the types of the argument
  specification, and what \<^verbatim>\<open>module.exit_json\<close> reports.
\<close>

record params =
  p_api_url :: string
  p_name :: string
  p_host :: string
  p_port :: int
  p_aetitle :: string
  p_state :: string

record exit_json =
  out_name :: string
  out_state :: string
  changed :: bool

text \<open>
  \<^verbatim>\<open>main\<close>. An exception that no handler catches ends the run: the result is the
  exception and the world it left. A \<^verbatim>\<open>Device\<close> object is always true in a condition, so
  \<^verbatim>\<open>not actual_device\<close> holds for \<^verbatim>\<open>None\<close> only.
\<close>

definition main ::
  "('s, 'b) transport \<Rightarrow> ('b \<Rightarrow> py_error + pyval) \<Rightarrow> (pyval \<Rightarrow> 'b) \<Rightarrow> params
     \<Rightarrow> ('s, 'b) world \<Rightarrow> (py_error + exit_json) \<times> ('s, 'b) world" where
  "main srv loads dumps p w =
     (let api = DeviceAPI_init (p_api_url p) (p_name p);
          expected_device =
            Device_init (PStr (p_name p)) (PStr (p_host p)) (PInt (p_port p)) (PStr (p_aetitle p));
          exit = (\<lambda>c. \<lparr>out_name = p_name p, out_state = p_state p, changed = c\<rparr>)
      in if p_state p = ''present'' then
           (case DeviceAPI_read srv loads api w of
              (Inl e, w1) \<Rightarrow> (Inl e, w1)
            | (Inr None, w1) \<Rightarrow>
                (case DeviceAPI_create srv dumps api expected_device w1 of
                   (Inl e, w2) \<Rightarrow> (Inl e, w2)
                 | (Inr c, w2) \<Rightarrow> (Inr (exit c), w2))
            | (Inr (Some actual_device), w1) \<Rightarrow>
                if Device_ne actual_device expected_device then
                  (case DeviceAPI_update srv dumps api expected_device w1 of
                     (Inl e, w2) \<Rightarrow> (Inl e, w2)
                   | (Inr c, w2) \<Rightarrow> (Inr (exit c), w2))
                else (Inr (exit False), w1))
         else if p_state p = ''absent'' then
           (case DeviceAPI_delete srv api w of
              (Inl e, w1) \<Rightarrow> (Inl e, w1)
            | (Inr c, w1) \<Rightarrow> (Inr (exit c), w1))
         else (Inr (exit False), w))"

section \<open>A concrete environment and concrete inputs\<close>

text \<open>
  To run the model, the parameters need values. The simplest JSON codec keeps the document
  itself as the text on the wire; a second decoder hands every dictionary back with its keys
  in the opposite order, as a Python dictionary read back from text may. The transport
  \<open>scripted\<close> answers the requests of a run with a prepared list of outcomes, in order, and
  with \<^verbatim>\<open>URLError\<close> once the list is used up.
\<close>

definition doc_loads :: "pyval \<Rightarrow> py_error + pyval" where
  "doc_loads b = Inr b"

definition doc_dumps :: "pyval \<Rightarrow> pyval" where
  "doc_dumps v = v"

fun reorder :: "pyval \<Rightarrow> pyval" where
  "reorder (PList xs) = PList (map reorder xs)"
| "reorder (PDict kvs) = PDict (rev (map (\<lambda>(k, v). (k, reorder v)) kvs))"
| "reorder v = v"

definition reorder_loads :: "pyval \<Rightarrow> py_error + pyval" where
  "reorder_loads b = Inr (reorder b)"

fun scripted :: "((py_error + 'b response) list, 'b) transport" where
  "scripted [] rq = (Inl URLError, [])"
| "scripted (out # rest) rq = (out, rest)"

text \<open>
  The first device of the module's \<^verbatim>\<open>EXAMPLES\<close>, the parameters that describe it, and three
  responses of a server: one with an empty connection array, one whose connection has no
  port, and one that carries the same four values as the module's own payload for the device
  but other flags, other keys, another order and further array entries.
\<close>

definition workstation23 :: Device where
  "workstation23 =
     Device_init (PStr ''workstation23'') (PStr ''192.168.0.100'') (PInt 11112) (PStr ''HELLOWORLD'')"

definition example_params :: "string \<Rightarrow> params" where
  "example_params st =
     \<lparr>p_api_url = ''http://1.2.3.4:8080/dcm4chee-arc/'',
      p_name = ''workstation23'',
      p_host = ''192.168.0.100'',
      p_port = 11112,
      p_aetitle = ''HELLOWORLD'',
      p_state = st\<rparr>"

definition empty_connections :: pyval where
  "empty_connections =
     PDict
       [(''dicomDeviceName'', PStr ''workstation23''),
        (''dicomNetworkConnection'', PList []),
        (''dicomNetworkAE'', PList [PDict [(''dicomAETitle'', PStr ''HELLOWORLD'')]])]"

definition missing_port :: pyval where
  "missing_port =
     PDict
       [(''dicomDeviceName'', PStr ''workstation23''),
        (''dicomNetworkConnection'', PList [PDict [(''dicomHostname'', PStr ''192.168.0.100'')]]),
        (''dicomNetworkAE'', PList [PDict [(''dicomAETitle'', PStr ''HELLOWORLD'')]])]"

definition other_flags :: pyval where
  "other_flags =
     PDict
       [(''dicomInstalled'', PBool False),
        (''dicomVendorData'', PBool True),
        (''dicomNetworkAE'',
           PList
             [PDict
                [(''dicomAssociationInitiator'', PBool False),
                 (''dicomAETitle'', PStr ''HELLOWORLD''),
                 (''dicomNetworkConnectionReference'', PList [])],
              PDict [(''dicomAETitle'', PStr ''CHUNKYBACON'')]]),
        (''dicomNetworkConnection'',
           PList
             [PDict
                [(''dicomPort'', PInt 11112),
                 (''dicomHostname'', PStr ''192.168.0.100'')],
              PDict
                [(''cn'', PStr ''dicom-tls''),
                 (''dicomHostname'', PStr ''192.168.0.200''),
                 (''dicomPort'', PInt 2762)]]),
        (''dicomDeviceName'', PStr ''workstation23'')]"

section \<open>Properties of \<^verbatim>\<open>==\<close>\<close>

lemma py_eq_refl: "py_eq v v"
proof (induction v)
  case (PList xs)
  then show ?case by (simp add: list_all2_same)
next
  case (PDict a)
  have "\<And>k x. map_of a k = Some x \<Longrightarrow> py_eq x x"
    using PDict [of "(k, x)" x for k x] by (auto dest: map_of_SomeD)
  then show ?case
    by (auto simp: list_all_iff weak_map_of_SomeI split: option.splits dest: weak_map_of_SomeI)
qed simp_all

lemma py_eq_PDict:
  "py_eq (PDict a) (PDict b) \<longleftrightarrow>
     (\<forall>k \<in> fst ` set a \<union> fst ` set b.
        \<exists>x y. map_of a k = Some x \<and> map_of b k = Some y \<and> py_eq x y)"
proof -
  have "(case map_of a k of None \<Rightarrow> False
         | Some x \<Rightarrow> (case map_of b k of None \<Rightarrow> False | Some y \<Rightarrow> py_eq x y)) \<longleftrightarrow>
        (\<exists>x y. map_of a k = Some x \<and> map_of b k = Some y \<and> py_eq x y)" for k
    by (cases "map_of a k"; cases "map_of b k"; simp)
  then show ?thesis
    by (simp add: list_all_iff)
qed

lemma py_eq_sym: "py_eq v w \<Longrightarrow> py_eq w v"
proof (induction v arbitrary: w)
  case (PList xs)
  then obtain ys where w: "w = PList ys" and r: "list_all2 py_eq xs ys"
    by (cases w) auto
  have "list_all2 (\<lambda>x y. py_eq y x) xs ys"
    using r PList.IH by (rule list.rel_mono_strong)
  then have "list_all2 py_eq ys xs"
    by (simp add: list_all2_conv_all_nth)
  then show ?case by (simp add: w)
next
  case (PDict a)
  then obtain b where w: "w = PDict b" by (cases w) auto
  have ih: "\<And>k x y. map_of a k = Some x \<Longrightarrow> py_eq x y \<Longrightarrow> py_eq y x"
    using PDict.IH [of "(k, x)" x for k x] by (auto dest: map_of_SomeD)
  have "\<forall>k \<in> fst ` set a \<union> fst ` set b.
        \<exists>x y. map_of a k = Some x \<and> map_of b k = Some y \<and> py_eq x y"
    using PDict.prems unfolding w py_eq_PDict .
  then have "\<forall>k \<in> fst ` set b \<union> fst ` set a.
        \<exists>y x. map_of b k = Some y \<and> map_of a k = Some x \<and> py_eq y x"
    using ih by (metis Un_iff)
  then show ?case
    unfolding w py_eq_PDict .
qed (auto split: pyval.splits)

lemma py_eq_PDict_D:
  assumes "py_eq (PDict a) v"
  shows "\<exists>b. v = PDict b \<and>
           (\<forall>k x. map_of a k = Some x \<longrightarrow> (\<exists>y. map_of b k = Some y \<and> py_eq x y))"
proof -
  from assms obtain b where v: "v = PDict b"
    by (cases v) auto
  have "\<exists>y. map_of b k = Some y \<and> py_eq x y" if "map_of a k = Some x" for k x
  proof -
    from that have "k \<in> fst ` set a"
      by (metis domI dom_map_of_conv_image_fst)
    with assms that show ?thesis
      unfolding v py_eq_PDict by fastforce
  qed
  with v show ?thesis by blast
qed

lemma py_eq_PList1_D:
  assumes "py_eq (PList [x]) v"
  shows "\<exists>y. v = PList [y] \<and> py_eq x y"
  using assms by (cases v) (auto simp: list_all2_Cons1)

lemma Device_eq_iff:
  "Device_eq a b \<longleftrightarrow>
     py_eq (name a) (name b) \<and> py_eq (host a) (host b) \<and>
     py_eq (port a) (port b) \<and> py_eq (aetitle a) (aetitle b)"
  by (simp add: Device_eq_def Device_dict_def) blast

lemma Device_eq_refl: "Device_eq a a"
  by (simp add: Device_eq_iff py_eq_refl)

section \<open>What the subscripts of \<^verbatim>\<open>from_json\<close> need\<close>

lemma py_index_0: "py_index n 0 = (if n = 0 then None else Some 0)"
  by (simp add: py_index_def)

lemma getitem_errors: "getitem v k = Inl e \<Longrightarrow> e \<in> {KeyError, IndexError, TypeError}"
  by (cases v; cases k) (auto split: option.splits)

lemma subscript_errors: "subscript v ks = Inl e \<Longrightarrow> e \<in> {KeyError, IndexError, TypeError}"
proof (induction ks arbitrary: v)
  case Nil
  then show ?case by simp
next
  case (Cons k ks)
  show ?case
  proof (cases "getitem v k")
    case (Inl e')
    with Cons.prems have "e' = e" by simp
    with Inl show ?thesis using getitem_errors by blast
  next
    case (Inr x)
    with Cons.prems have "subscript x ks = Inl e" by simp
    then show ?thesis by (rule Cons.IH)
  qed
qed

lemma getitem_KStr_Inr:
  "getitem v (KStr k) = Inr x \<longleftrightarrow> (\<exists>kvs. v = PDict kvs \<and> map_of kvs k = Some x)"
  by (cases v) (auto split: option.splits)

lemma getitem_0_then_KStr:
  "(\<exists>y. getitem v (KInt 0) = Inr y \<and> getitem y (KStr k) = Inr x) \<longleftrightarrow>
   (\<exists>kvs rest. v = PList (PDict kvs # rest) \<and> map_of kvs k = Some x)"
proof (cases v)
  case (PList xs)
  then show ?thesis
    by (cases xs) (auto simp: py_index_0 getitem_KStr_Inr)
next
  case (PStr s)
  then show ?thesis
    by (auto simp: py_index_0 getitem_KStr_Inr)
qed auto

lemma subscript_1_Inr:
  "subscript doc [KStr k] = Inr x \<longleftrightarrow> (\<exists>obj. doc = PDict obj \<and> map_of obj k = Some x)"
  by (cases "getitem doc (KStr k)") (auto simp: getitem_KStr_Inr)

lemma subscript_3_Inr:
  "subscript doc [KStr k, KInt 0, KStr k'] = Inr x \<longleftrightarrow>
     (\<exists>obj kvs rest. doc = PDict obj \<and> map_of obj k = Some (PList (PDict kvs # rest)) \<and>
        map_of kvs k' = Some x)"
  (is "?L \<longleftrightarrow> ?R")
proof
  assume ?L
  then obtain v y where 1: "getitem doc (KStr k) = Inr v"
    and 2: "getitem v (KInt 0) = Inr y" and 3: "getitem y (KStr k') = Inr x"
    by (auto split: sum.splits)
  from 2 3 obtain kvs rest where "v = PList (PDict kvs # rest)" "map_of kvs k' = Some x"
    using getitem_0_then_KStr [of v k' x] by blast
  with 1 show ?R by (auto simp: getitem_KStr_Inr)
next
  assume ?R
  then show ?L by (auto simp: py_index_0)
qed

lemma from_json_well_formed:
  assumes "loads s = Inr (PDict obj)"
    and "map_of obj ''dicomDeviceName'' = Some n"
    and "map_of obj ''dicomNetworkConnection'' = Some (PList (PDict conn # conns))"
    and "map_of conn ''dicomHostname'' = Some h"
    and "map_of conn ''dicomPort'' = Some p"
    and "map_of obj ''dicomNetworkAE'' = Some (PList (PDict ae # aes))"
    and "map_of ae ''dicomAETitle'' = Some t"
  shows "Device_from_json loads s = Inr (Device_init n h p t)"
proof -
  have "subscript (PDict obj) [KStr ''dicomDeviceName''] = Inr n"
    using assms by (simp only: subscript_1_Inr) blast
  moreover have
    "subscript (PDict obj) [KStr ''dicomNetworkConnection'', KInt 0, KStr ''dicomHostname''] = Inr h"
    using assms by (simp only: subscript_3_Inr) blast
  moreover have
    "subscript (PDict obj) [KStr ''dicomNetworkConnection'', KInt 0, KStr ''dicomPort''] = Inr p"
    using assms by (simp only: subscript_3_Inr) blast
  moreover have
    "subscript (PDict obj) [KStr ''dicomNetworkAE'', KInt 0, KStr ''dicomAETitle''] = Inr t"
    using assms by (simp only: subscript_3_Inr) blast
  ultimately show ?thesis
    using assms(1) by (simp only: Device_from_json_def sum.case)
qed

lemma from_json_Inr_shape:
  assumes "Device_from_json loads s = Inr d"
  shows "\<exists>obj conn conns ae aes.
           loads s = Inr (PDict obj) \<and>
           map_of obj ''dicomDeviceName'' = Some (name d) \<and>
           map_of obj ''dicomNetworkConnection'' = Some (PList (PDict conn # conns)) \<and>
           map_of conn ''dicomHostname'' = Some (host d) \<and>
           map_of conn ''dicomPort'' = Some (port d) \<and>
           map_of obj ''dicomNetworkAE'' = Some (PList (PDict ae # aes)) \<and>
           map_of ae ''dicomAETitle'' = Some (aetitle d)"
proof -
  from assms obtain doc n h p t where doc: "loads s = Inr doc"
    and n: "subscript doc [KStr ''dicomDeviceName''] = Inr n"
    and h: "subscript doc [KStr ''dicomNetworkConnection'', KInt 0, KStr ''dicomHostname''] = Inr h"
    and p: "subscript doc [KStr ''dicomNetworkConnection'', KInt 0, KStr ''dicomPort''] = Inr p"
    and t: "subscript doc [KStr ''dicomNetworkAE'', KInt 0, KStr ''dicomAETitle''] = Inr t"
    and d: "d = Device_init n h p t"
    unfolding Device_from_json_def by (auto split: sum.splits)
  from n obtain obj where obj: "doc = PDict obj" "map_of obj ''dicomDeviceName'' = Some n"
    unfolding subscript_1_Inr by blast
  from h obj obtain conn conns where
    conn: "map_of obj ''dicomNetworkConnection'' = Some (PList (PDict conn # conns))"
       "map_of conn ''dicomHostname'' = Some h"
    unfolding subscript_3_Inr by blast
  from p obj conn have conn_port: "map_of conn ''dicomPort'' = Some p"
    unfolding subscript_3_Inr by auto
  from t obj obtain ae aes where
    ae: "map_of obj ''dicomNetworkAE'' = Some (PList (PDict ae # aes))"
       "map_of ae ''dicomAETitle'' = Some t"
    unfolding subscript_3_Inr by blast
  show ?thesis
    using doc obj conn conn_port ae by (simp add: d Device_init_def)
qed

lemma from_json_errors:
  assumes "Device_from_json loads s = Inl e" and "loads s = Inr doc"
  shows "e \<in> {KeyError, IndexError, TypeError}"
proof -
  from assms obtain ks where "subscript doc ks = Inl e"
    unfolding Device_from_json_def by (auto simp del: subscript.simps split: sum.splits)
  then show ?thesis by (rule subscript_errors)
qed

lemma from_json_payload_workstation23:
  "Device_from_json doc_loads (Device_payload workstation23) = Inr workstation23"
  by (simp add: Device_from_json_def doc_loads_def Device_payload_def workstation23_def
      Device_init_def py_index_0)

lemma from_json_payload_moved:
  "Device_from_json doc_loads (Device_payload (workstation23\<lparr>port := PInt 104\<rparr>)) =
     Inr (workstation23\<lparr>port := PInt 104\<rparr>)"
  by (simp add: Device_from_json_def doc_loads_def Device_payload_def workstation23_def
      Device_init_def py_index_0)

section \<open>One request per call\<close>

text \<open>
  Each method of \<^verbatim>\<open>DeviceAPI\<close> sends exactly one request, and its result is decided by what
  the environment does with that request.
\<close>

lemma urlopen_eq:
  "srv (server w) rq = (out, s') \<Longrightarrow>
   urlopen srv rq w = (out, \<lparr>server = s', sent = sent w @ [rq]\<rparr>)"
  by (simp add: urlopen_def)

lemma DeviceAPI_urlopen_eq:
  assumes "srv (server w) rq = (out, s')"
  shows "DeviceAPI_urlopen srv rq ignore_error w =
           (case out of
              Inl (HTTPError c) \<Rightarrow> if Some c = ignore_error then Inr None else Inl (HTTPError c)
            | Inl e \<Rightarrow> Inl e
            | Inr resp \<Rightarrow> Inr (Some resp),
            \<lparr>server = s', sent = sent w @ [rq]\<rparr>)"
  using assms
  by (simp add: DeviceAPI_urlopen_def urlopen_eq split: sum.splits py_error.splits)

lemma DeviceAPI_read_eq:
  assumes "srv (server w) (DeviceAPI_request self None GET) = (out, s')"
  shows "DeviceAPI_read srv loads self w =
           (case out of
              Inl (HTTPError c) \<Rightarrow> if c = 404 then Inr None else Inl (HTTPError c)
            | Inl e \<Rightarrow> Inl e
            | Inr resp \<Rightarrow>
                (case Device_from_json loads (body resp) of
                   Inl e \<Rightarrow> Inl e
                 | Inr d \<Rightarrow> Inr (Some d)),
            \<lparr>server = s', sent = sent w @ [DeviceAPI_request self None GET]\<rparr>)"
  by (simp add: DeviceAPI_read_def
      DeviceAPI_urlopen_eq [of srv w _ out s', OF assms]
      split: sum.splits py_error.splits)

lemma DeviceAPI_create_eq:
  assumes "srv (server w) (DeviceAPI_request self (Some (Device_to_json dumps device)) POST) = (out, s')"
  shows "DeviceAPI_create srv dumps self device w =
           (case out of
              Inl (HTTPError c) \<Rightarrow> if c = 409 then Inr False else Inl (HTTPError c)
            | Inl e \<Rightarrow> Inl e
            | Inr resp \<Rightarrow> Inr True,
            \<lparr>server = s',
             sent = sent w @ [DeviceAPI_request self (Some (Device_to_json dumps device)) POST]\<rparr>)"
  by (auto simp: DeviceAPI_create_def
      DeviceAPI_urlopen_eq [of srv w _ out s', OF assms]
      split: sum.splits py_error.splits)

lemma DeviceAPI_update_eq:
  assumes "srv (server w) (DeviceAPI_request self (Some (Device_to_json dumps device)) PUT) = (out, s')"
  shows "DeviceAPI_update srv dumps self device w =
           (case out of
              Inl (HTTPError c) \<Rightarrow> if c = 404 then Inr False else Inl (HTTPError c)
            | Inl e \<Rightarrow> Inl e
            | Inr resp \<Rightarrow> Inr True,
            \<lparr>server = s',
             sent = sent w @ [DeviceAPI_request self (Some (Device_to_json dumps device)) PUT]\<rparr>)"
  by (auto simp: DeviceAPI_update_def
      DeviceAPI_urlopen_eq [of srv w _ out s', OF assms]
      split: sum.splits py_error.splits)

lemma DeviceAPI_delete_eq:
  assumes "srv (server w) (DeviceAPI_request self None DELETE) = (out, s')"
  shows "DeviceAPI_delete srv self w =
           (case out of
              Inl (HTTPError c) \<Rightarrow> if c = 404 then Inr False else Inl (HTTPError c)
            | Inl e \<Rightarrow> Inl e
            | Inr resp \<Rightarrow> Inr True,
            \<lparr>server = s', sent = sent w @ [DeviceAPI_request self None DELETE]\<rparr>)"
  by (auto simp: DeviceAPI_delete_def
      DeviceAPI_urlopen_eq [of srv w _ out s', OF assms]
      split: sum.splits py_error.splits)

lemma DeviceAPI_read_sent:
  "sent (snd (DeviceAPI_read srv loads self w)) = sent w @ [DeviceAPI_request self None GET]"
proof -
  obtain out s' where "srv (server w) (DeviceAPI_request self None GET) = (out, s')"
    by (cases "srv (server w) (DeviceAPI_request self None GET)")
  from DeviceAPI_read_eq [of srv w self out s' loads, OF this] show ?thesis
    by simp
qed

lemma DeviceAPI_create_sent:
  "sent (snd (DeviceAPI_create srv dumps self device w)) =
     sent w @ [DeviceAPI_request self (Some (Device_to_json dumps device)) POST]"
proof -
  obtain out s' where
    "srv (server w) (DeviceAPI_request self (Some (Device_to_json dumps device)) POST) = (out, s')"
    by (cases "srv (server w) (DeviceAPI_request self (Some (Device_to_json dumps device)) POST)")
  from DeviceAPI_create_eq [of srv w self dumps device out s', OF this] show ?thesis
    by simp
qed

lemma DeviceAPI_update_sent:
  "sent (snd (DeviceAPI_update srv dumps self device w)) =
     sent w @ [DeviceAPI_request self (Some (Device_to_json dumps device)) PUT]"
proof -
  obtain out s' where
    "srv (server w) (DeviceAPI_request self (Some (Device_to_json dumps device)) PUT) = (out, s')"
    by (cases "srv (server w) (DeviceAPI_request self (Some (Device_to_json dumps device)) PUT)")
  from DeviceAPI_update_eq [of srv w self dumps device out s', OF this] show ?thesis
    by simp
qed

lemma DeviceAPI_delete_sent:
  "sent (snd (DeviceAPI_delete srv self w)) = sent w @ [DeviceAPI_request self None DELETE]"
proof -
  obtain out s' where "srv (server w) (DeviceAPI_request self None DELETE) = (out, s')"
    by (cases "srv (server w) (DeviceAPI_request self None DELETE)")
  from DeviceAPI_delete_eq [of srv w self out s', OF this] show ?thesis
    by simp
qed

section \<open>The branches of \<^verbatim>\<open>main\<close>\<close>

lemma report_eq:
  "(case r of (Inl e, w') \<Rightarrow> (Inl e, w') | (Inr c, w') \<Rightarrow> (Inr (f c), w')) =
   (map_sum id f (fst r), snd r)"
  by (cases r; cases "fst r") auto

lemma main_present:
  assumes "p_state p = ''present''"
  shows "main srv loads dumps p w =
     (case DeviceAPI_read srv loads (DeviceAPI_init (p_api_url p) (p_name p)) w of
        (Inl e, w1) \<Rightarrow> (Inl e, w1)
      | (Inr None, w1) \<Rightarrow>
          (map_sum id (\<lambda>c. \<lparr>out_name = p_name p, out_state = p_state p, changed = c\<rparr>)
             (fst (DeviceAPI_create srv dumps (DeviceAPI_init (p_api_url p) (p_name p))
                (Device_init (PStr (p_name p)) (PStr (p_host p)) (PInt (p_port p))
                   (PStr (p_aetitle p))) w1)),
           snd (DeviceAPI_create srv dumps (DeviceAPI_init (p_api_url p) (p_name p))
                (Device_init (PStr (p_name p)) (PStr (p_host p)) (PInt (p_port p))
                   (PStr (p_aetitle p))) w1))
      | (Inr (Some actual_device), w1) \<Rightarrow>
          if Device_eq actual_device
               (Device_init (PStr (p_name p)) (PStr (p_host p)) (PInt (p_port p))
                  (PStr (p_aetitle p)))
          then (Inr \<lparr>out_name = p_name p, out_state = p_state p, changed = False\<rparr>, w1)
          else
            (map_sum id (\<lambda>c. \<lparr>out_name = p_name p, out_state = p_state p, changed = c\<rparr>)
               (fst (DeviceAPI_update srv dumps (DeviceAPI_init (p_api_url p) (p_name p))
                  (Device_init (PStr (p_name p)) (PStr (p_host p)) (PInt (p_port p))
                     (PStr (p_aetitle p))) w1)),
             snd (DeviceAPI_update srv dumps (DeviceAPI_init (p_api_url p) (p_name p))
                  (Device_init (PStr (p_name p)) (PStr (p_host p)) (PInt (p_port p))
                     (PStr (p_aetitle p))) w1)))"
  unfolding main_def Let_def report_eq Device_ne_def
  by (simp add: assms split: prod.splits sum.splits option.splits)

lemma main_absent:
  assumes "p_state p = ''absent''"
  shows "main srv loads dumps p w =
     (map_sum id (\<lambda>c. \<lparr>out_name = p_name p, out_state = p_state p, changed = c\<rparr>)
        (fst (DeviceAPI_delete srv (DeviceAPI_init (p_api_url p) (p_name p)) w)),
      snd (DeviceAPI_delete srv (DeviceAPI_init (p_api_url p) (p_name p)) w))"
  unfolding main_def Let_def report_eq
  by (simp add: assms)

lemma main_other:
  assumes "p_state p \<noteq> ''present''" and "p_state p \<noteq> ''absent''"
  shows "main srv loads dumps p w =
     (Inr \<lparr>out_name = p_name p, out_state = p_state p, changed = False\<rparr>, w)"
  by (simp add: main_def assms)

lemma main_read_error:
  assumes "p_state p = ''present''"
    and "fst (DeviceAPI_read srv loads (DeviceAPI_init (p_api_url p) (p_name p)) w) = Inl e"
  shows "fst (main srv loads dumps p w) = Inl e"
  using assms
  by (cases "DeviceAPI_read srv loads (DeviceAPI_init (p_api_url p) (p_name p)) w")
    (simp add: main_def)

lemma main_requests:
  "\<exists>rs. sent (snd (main srv loads dumps p w)) = sent w @ rs \<and>
     (rs = [] \<or>
      (\<exists>g. rs = [g] \<and> get_method g = GET) \<or>
      (\<exists>g x. rs = [g, x] \<and> get_method g = GET \<and> get_method x = POST) \<or>
      (\<exists>g x. rs = [g, x] \<and> get_method g = GET \<and> get_method x = PUT) \<or>
      (\<exists>x. rs = [x] \<and> get_method x = DELETE))"
proof -
  let ?api = "DeviceAPI_init (p_api_url p) (p_name p)"
  consider (present) "p_state p = ''present''" | (absent) "p_state p = ''absent''"
    | (other) "p_state p \<noteq> ''present''" "p_state p \<noteq> ''absent''"
    by blast
  then show ?thesis
  proof cases
    case present
    obtain fetched w1 where r: "DeviceAPI_read srv loads ?api w = (fetched, w1)"
      by (cases "DeviceAPI_read srv loads ?api w")
    have w1: "sent w1 = sent w @ [DeviceAPI_request ?api None GET]"
      using DeviceAPI_read_sent [of srv loads ?api w] r by simp
    show ?thesis
      unfolding main_present [OF present] r
      by (cases fetched)
        (auto simp: w1 DeviceAPI_create_sent DeviceAPI_update_sent DeviceAPI_request_def
           split: option.splits)
  next
    case absent
    show ?thesis
      unfolding main_absent [OF absent]
      by (simp add: DeviceAPI_delete_sent DeviceAPI_request_def)
  next
    case other
    then show ?thesis
      by (simp add: main_other)
  qed
qed

section \<open>The claims\<close>

subsection \<open>Reconciliation\<close>

text \<open>
  Claim C1. In a run with \<^verbatim>\<open>state=present\<close>, let \<^verbatim>\<open>api.read()\<close> return \<open>fetched\<close> and leave the
  world \<open>w1\<close>. If nothing was fetched (\<^verbatim>\<open>None\<close>), the run is the call \<^verbatim>\<open>api.create(expected_device)\<close> from
  \<open>w1\<close>: it ends in the world that call leaves, reports \<open>changed\<close> as the value the call
  returns (or raises what the call raises), and has sent the GET and then the POST with the
  payload of the expected device. If a device was fetched and \<^verbatim>\<open>__eq__\<close> tells it from the expected
  device, the same holds with \<^verbatim>\<open>api.update\<close> and a PUT. If the fetched device equals the expected
  one, the run ends in \<open>w1\<close> with \<open>changed = False\<close>, and the GET is the only request sent.
\<close>

theorem present_reconciles:
  assumes "p_state p = ''present''"
    and "api = DeviceAPI_init (p_api_url p) (p_name p)"
    and "expected =
           Device_init (PStr (p_name p)) (PStr (p_host p)) (PInt (p_port p)) (PStr (p_aetitle p))"
    and "DeviceAPI_read srv loads api w = (fetched, w1)"
  shows
    "(fetched = Inr None \<longrightarrow>
        main srv loads dumps p w =
          (map_sum id (\<lambda>c. \<lparr>out_name = p_name p, out_state = p_state p, changed = c\<rparr>)
             (fst (DeviceAPI_create srv dumps api expected w1)),
           snd (DeviceAPI_create srv dumps api expected w1)) \<and>
        sent (snd (main srv loads dumps p w)) =
          sent w @ [DeviceAPI_request api None GET,
                    DeviceAPI_request api (Some (dumps (Device_payload expected))) POST]) \<and>
     (\<forall>actual. fetched = Inr (Some actual) \<and> \<not> Device_eq actual expected \<longrightarrow>
        main srv loads dumps p w =
          (map_sum id (\<lambda>c. \<lparr>out_name = p_name p, out_state = p_state p, changed = c\<rparr>)
             (fst (DeviceAPI_update srv dumps api expected w1)),
           snd (DeviceAPI_update srv dumps api expected w1)) \<and>
        sent (snd (main srv loads dumps p w)) =
          sent w @ [DeviceAPI_request api None GET,
                    DeviceAPI_request api (Some (dumps (Device_payload expected))) PUT]) \<and>
     (\<forall>actual. fetched = Inr (Some actual) \<and> Device_eq actual expected \<longrightarrow>
        main srv loads dumps p w =
          (Inr \<lparr>out_name = p_name p, out_state = p_state p, changed = False\<rparr>, w1) \<and>
        sent (snd (main srv loads dumps p w)) = sent w @ [DeviceAPI_request api None GET])"
proof -
  have w1: "sent w1 = sent w @ [DeviceAPI_request api None GET]"
    using DeviceAPI_read_sent [of srv loads api w] assms(4) by simp
  note m = main_present [OF assms(1), of srv loads dumps w, folded assms(2) assms(3)]
  show ?thesis
    unfolding m assms(4)
    by (simp add: w1 DeviceAPI_create_sent DeviceAPI_update_sent Device_to_json_def)
qed

theorem present_reconciles_example:
  "main scripted doc_loads doc_dumps (example_params ''present'')
     \<lparr>server = [Inl (HTTPError 404), Inr \<lparr>status = 204, body = PNone\<rparr>], sent = []\<rparr> =
     (Inr \<lparr>out_name = ''workstation23'', out_state = ''present'', changed = True\<rparr>,
      \<lparr>server = [],
       sent = [\<lparr>full_url = ''http://1.2.3.4:8080/dcm4chee-arc/devices/workstation23'',
                data = None,
                headers = [(''Content-Type'', ''application/json'')],
                get_method = GET\<rparr>,
               \<lparr>full_url = ''http://1.2.3.4:8080/dcm4chee-arc/devices/workstation23'',
                data = Some (Device_payload workstation23),
                headers = [(''Content-Type'', ''application/json'')],
                get_method = POST\<rparr>]\<rparr>) \<and>
   main scripted doc_loads doc_dumps (example_params ''present'')
     \<lparr>server = [Inr \<lparr>status = 200, body = Device_payload (workstation23\<lparr>port := PInt 104\<rparr>)\<rparr>,
                Inr \<lparr>status = 204, body = PNone\<rparr>], sent = []\<rparr> =
     (Inr \<lparr>out_name = ''workstation23'', out_state = ''present'', changed = True\<rparr>,
      \<lparr>server = [],
       sent = [\<lparr>full_url = ''http://1.2.3.4:8080/dcm4chee-arc/devices/workstation23'',
                data = None,
                headers = [(''Content-Type'', ''application/json'')],
                get_method = GET\<rparr>,
               \<lparr>full_url = ''http://1.2.3.4:8080/dcm4chee-arc/devices/workstation23'',
                data = Some (Device_payload workstation23),
                headers = [(''Content-Type'', ''application/json'')],
                get_method = PUT\<rparr>]\<rparr>) \<and>
   main scripted doc_loads doc_dumps (example_params ''present'')
     \<lparr>server = [Inr \<lparr>status = 200, body = Device_payload workstation23\<rparr>,
                Inr \<lparr>status = 204, body = PNone\<rparr>], sent = []\<rparr> =
     (Inr \<lparr>out_name = ''workstation23'', out_state = ''present'', changed = False\<rparr>,
      \<lparr>server = [Inr \<lparr>status = 204, body = PNone\<rparr>],
       sent = [\<lparr>full_url = ''http://1.2.3.4:8080/dcm4chee-arc/devices/workstation23'',
                data = None,
                headers = [(''Content-Type'', ''application/json'')],
                get_method = GET\<rparr>]\<rparr>) \<and>
   fst (main scripted doc_loads doc_dumps (example_params ''present'')
          \<lparr>server = [Inl (HTTPError 404), Inl (HTTPError 409)], sent = []\<rparr>) =
     Inr \<lparr>out_name = ''workstation23'', out_state = ''present'', changed = False\<rparr>"
proof -
  let ?api = "DeviceAPI_init (p_api_url (example_params ''present''))
                (p_name (example_params ''present''))"
  let ?done = "Inr \<lparr>status = 204, body = PNone\<rparr> :: py_error + pyval response"
  let ?get = "DeviceAPI_request ?api None GET :: pyval request"
  have st: "p_state (example_params ''present'') = ''present''"
    by (simp add: example_params_def)
  have srv: "scripted (server \<lparr>server = out # rest, sent = l\<rparr>) rq = (out, rest)"
    for out rest l and rq :: "pyval request"
    by simp
  have absent: "DeviceAPI_read scripted doc_loads ?api
      \<lparr>server = [Inl (HTTPError 404), ?done], sent = []\<rparr> =
      (Inr None, \<lparr>server = [?done], sent = [?get]\<rparr>)"
    by (simp add: DeviceAPI_read_eq [where srv = scripted, OF srv])
  have raced: "DeviceAPI_read scripted doc_loads ?api
      \<lparr>server = [Inl (HTTPError 404), Inl (HTTPError 409)], sent = []\<rparr> =
      (Inr None, \<lparr>server = [Inl (HTTPError 409)], sent = [?get]\<rparr>)"
    by (simp add: DeviceAPI_read_eq [where srv = scripted, OF srv])
  have moved: "DeviceAPI_read scripted doc_loads ?api
      \<lparr>server = [Inr \<lparr>status = 200, body = Device_payload (workstation23\<lparr>port := PInt 104\<rparr>)\<rparr>,
                 ?done], sent = []\<rparr> =
      (Inr (Some (workstation23\<lparr>port := PInt 104\<rparr>)), \<lparr>server = [?done], sent = [?get]\<rparr>)"
    by (simp add: DeviceAPI_read_eq [where srv = scripted, OF srv] from_json_payload_moved)
  have same: "DeviceAPI_read scripted doc_loads ?api
      \<lparr>server = [Inr \<lparr>status = 200, body = Device_payload workstation23\<rparr>, ?done], sent = []\<rparr> =
      (Inr (Some workstation23), \<lparr>server = [?done], sent = [?get]\<rparr>)"
    by (simp add: DeviceAPI_read_eq [where srv = scripted, OF srv] from_json_payload_workstation23)
  have ne: "\<not> Device_eq (workstation23\<lparr>port := PInt 104\<rparr>) workstation23"
    by (simp add: Device_eq_iff workstation23_def Device_init_def)
  have eq: "Device_eq workstation23 workstation23"
    by (simp add: Device_eq_iff workstation23_def Device_init_def)
  note a = present_reconciles [where dumps = doc_dumps, OF st refl refl absent]
  note b = present_reconciles [where dumps = doc_dumps, OF st refl refl moved]
  note c = present_reconciles [where dumps = doc_dumps, OF st refl refl same]
  note d = present_reconciles [where dumps = doc_dumps, OF st refl refl raced]
  from a b c d ne eq show ?thesis
    by (simp add: DeviceAPI_create_eq [where srv = scripted, OF srv]
        DeviceAPI_update_eq [where srv = scripted, OF srv]
        DeviceAPI_request_def DeviceAPI_init_def Device_to_json_def doc_dumps_def
        example_params_def workstation23_def Device_eq_iff Device_init_def)
qed

subsection \<open>Serialising and parsing\<close>

text \<open>
  Claim C2. Let the JSON codec read back the payload of a device \<open>d\<close> as a value that Python's
  \<^verbatim>\<open>==\<close> does not tell from the payload (\<^verbatim>\<open>json.loads(json.dumps(v)) == v\<close>). Then, whatever the
  four fields of \<open>d\<close> are, \<^verbatim>\<open>from_json\<close> applied to \<^verbatim>\<open>d.to_json()\<close> returns a device whose name,
  host, port and AE title equal those of \<open>d\<close>, and which \<^verbatim>\<open>__eq__\<close> finds equal to \<open>d\<close>.
\<close>

theorem to_json_from_json_roundtrip:
  assumes "loads (dumps (Device_payload d)) = Inr v"
    and "py_eq (Device_payload d) v"
  shows "\<exists>d'. Device_from_json loads (Device_to_json dumps d) = Inr d' \<and>
           py_eq (name d') (name d) \<and> py_eq (host d') (host d) \<and>
           py_eq (port d') (port d) \<and> py_eq (aetitle d') (aetitle d) \<and>
           Device_eq d' d"
proof -
  define conn0 where "conn0 =
    [(''cn'', PStr ''dicom''), (''dicomHostname'', host d), (''dicomPort'', port d)]"
  define ae0 where "ae0 =
    [(''dicomAETitle'', aetitle d),
     (''dicomAssociationInitiator'', PBool True),
     (''dicomAssociationAcceptor'', PBool True),
     (''dicomNetworkConnectionReference'', PList [PStr ''/dicomNetworkConnection/0''])]"
  define obj0 where "obj0 =
    [(''dicomDeviceName'', name d),
     (''dicomInstalled'', PBool True),
     (''dicomNetworkConnection'', PList [PDict conn0]),
     (''dicomNetworkAE'', PList [PDict ae0])]"
  have payload: "Device_payload d = PDict obj0"
    by (simp add: Device_payload_def obj0_def conn0_def ae0_def)
  from assms(2) obtain obj where v: "v = PDict obj"
    and obj: "\<And>k x. map_of obj0 k = Some x \<Longrightarrow> \<exists>y. map_of obj k = Some y \<and> py_eq x y"
    unfolding payload using py_eq_PDict_D by blast
  from obj [of "''dicomDeviceName''" "name d"]
  obtain n where n: "map_of obj ''dicomDeviceName'' = Some n" "py_eq (name d) n"
    by (auto simp: obj0_def)
  from obj [of "''dicomNetworkConnection''" "PList [PDict conn0]"]
  obtain cv where cv: "map_of obj ''dicomNetworkConnection'' = Some cv"
    "py_eq (PList [PDict conn0]) cv"
    by (auto simp: obj0_def)
  from cv(2) obtain c0 where c0: "cv = PList [c0]" "py_eq (PDict conn0) c0"
    using py_eq_PList1_D by blast
  from c0(2) obtain conn where conn: "c0 = PDict conn"
    and conn_of: "\<And>k x. map_of conn0 k = Some x
        \<Longrightarrow> \<exists>y. map_of conn k = Some y \<and> py_eq x y"
    using py_eq_PDict_D by blast
  from conn_of [of "''dicomHostname''" "host d"]
  obtain h where h: "map_of conn ''dicomHostname'' = Some h" "py_eq (host d) h"
    by (auto simp: conn0_def)
  from conn_of [of "''dicomPort''" "port d"]
  obtain p where p: "map_of conn ''dicomPort'' = Some p" "py_eq (port d) p"
    by (auto simp: conn0_def)
  from obj [of "''dicomNetworkAE''" "PList [PDict ae0]"]
  obtain av where av: "map_of obj ''dicomNetworkAE'' = Some av"
    "py_eq (PList [PDict ae0]) av"
    by (auto simp: obj0_def)
  from av(2) obtain a0 where a0: "av = PList [a0]" "py_eq (PDict ae0) a0"
    using py_eq_PList1_D by blast
  from a0(2) obtain ae where ae: "a0 = PDict ae"
    and ae_of: "\<And>k x. map_of ae0 k = Some x
        \<Longrightarrow> \<exists>y. map_of ae k = Some y \<and> py_eq x y"
    using py_eq_PDict_D by blast
  from ae_of [of "''dicomAETitle''" "aetitle d"]
  obtain t where t: "map_of ae ''dicomAETitle'' = Some t" "py_eq (aetitle d) t"
    by (auto simp: ae0_def)
  have "Device_from_json loads (Device_to_json dumps d) = Inr (Device_init n h p t)"
    unfolding Device_to_json_def
    using assms(1) [unfolded v] n(1) cv(1) [unfolded c0(1) conn] h(1) p(1)
      av(1) [unfolded a0(1) ae] t(1)
    by (rule from_json_well_formed)
  moreover have "py_eq n (name d)" "py_eq h (host d)" "py_eq p (port d)" "py_eq t (aetitle d)"
    using n(2) h(2) p(2) t(2) by (auto intro: py_eq_sym)
  ultimately show ?thesis
    by (simp add: Device_eq_iff Device_init_def)
qed

theorem to_json_from_json_roundtrip_example:
  "reorder_loads (doc_dumps (Device_payload workstation23)) =
     Inr (reorder (Device_payload workstation23)) \<and>
   py_eq (Device_payload workstation23) (reorder (Device_payload workstation23)) \<and>
   (\<exists>d'. Device_from_json reorder_loads (Device_to_json doc_dumps workstation23) = Inr d' \<and>
      Device_eq d' workstation23) \<and>
   (\<forall>d. \<exists>d'. Device_from_json doc_loads (Device_to_json doc_dumps d) = Inr d' \<and>
      Device_eq d' d)"
proof -
  have 1: "reorder_loads (doc_dumps (Device_payload workstation23)) =
     Inr (reorder (Device_payload workstation23))"
    by (simp add: reorder_loads_def doc_dumps_def)
  have 2: "py_eq (Device_payload workstation23) (reorder (Device_payload workstation23))"
    by (simp add: Device_payload_def workstation23_def Device_init_def)
  have 3: "doc_loads (doc_dumps (Device_payload d)) = Inr (Device_payload d)" for d
    by (simp add: doc_loads_def doc_dumps_def)
  have "\<exists>d'. Device_from_json doc_loads (Device_to_json doc_dumps d) = Inr d' \<and> Device_eq d' d"
    for d
    using to_json_from_json_roundtrip [of doc_loads doc_dumps d, OF 3 py_eq_refl] by blast
  with to_json_from_json_roundtrip [of reorder_loads doc_dumps workstation23, OF 1 2] 1 2
  show ?thesis
    by blast
qed

subsection \<open>Deleting\<close>

text \<open>
  Claim C3. A run with \<^verbatim>\<open>state=absent\<close> is the call \<^verbatim>\<open>api.delete()\<close>: it sends one DELETE request
  without a body to the resource URL and nothing else, and reports \<open>changed\<close> as the value the
  call returns. That value is \<open>True\<close> when the server answers with a success, and \<open>False\<close>, with no
  exception, when it answers 404; any other error status is raised.
\<close>

theorem absent_deletes:
  assumes "p_state p = ''absent''"
    and "rq = \<lparr>full_url = p_api_url p @ ''devices'' @ ''/'' @ p_name p, data = None,
                  headers = [(''Content-Type'', ''application/json'')], get_method = DELETE\<rparr>"
    and "srv (server w) rq = (out, s')"
  shows
    "main srv loads dumps p w =
       (map_sum id (\<lambda>c. \<lparr>out_name = p_name p, out_state = p_state p, changed = c\<rparr>)
          (fst (DeviceAPI_delete srv (DeviceAPI_init (p_api_url p) (p_name p)) w)),
        snd (DeviceAPI_delete srv (DeviceAPI_init (p_api_url p) (p_name p)) w)) \<and>
     snd (main srv loads dumps p w) = \<lparr>server = s', sent = sent w @ [rq]\<rparr> \<and>
     (\<forall>resp. out = Inr resp \<longrightarrow>
        fst (main srv loads dumps p w) =
          Inr \<lparr>out_name = p_name p, out_state = ''absent'', changed = True\<rparr>) \<and>
     (out = Inl (HTTPError 404) \<longrightarrow>
        fst (main srv loads dumps p w) =
          Inr \<lparr>out_name = p_name p, out_state = ''absent'', changed = False\<rparr>) \<and>
     (\<forall>c. out = Inl (HTTPError c) \<and> c \<noteq> 404 \<longrightarrow>
        fst (main srv loads dumps p w) = Inl (HTTPError c))"
proof -
  have rq: "DeviceAPI_request (DeviceAPI_init (p_api_url p) (p_name p)) None DELETE = rq"
    by (simp add: assms(2) DeviceAPI_request_def DeviceAPI_init_def)
  have "srv (server w) (DeviceAPI_request (DeviceAPI_init (p_api_url p) (p_name p)) None DELETE)
          = (out, s')"
    using assms(3) by (simp only: rq)
  note eq = DeviceAPI_delete_eq
    [of srv w "DeviceAPI_init (p_api_url p) (p_name p)" out s', OF this]
  show ?thesis
    unfolding main_absent [OF assms(1)] eq rq
    by (auto simp: assms(1) split: py_error.splits)
qed

theorem absent_deletes_example:
  "main scripted doc_loads doc_dumps (example_params ''absent'')
     \<lparr>server = [Inr \<lparr>status = 204, body = PNone\<rparr>], sent = []\<rparr> =
     (Inr \<lparr>out_name = ''workstation23'', out_state = ''absent'', changed = True\<rparr>,
      \<lparr>server = [],
       sent = [\<lparr>full_url = ''http://1.2.3.4:8080/dcm4chee-arc/devices/workstation23'',
                data = None,
                headers = [(''Content-Type'', ''application/json'')],
                get_method = DELETE\<rparr>]\<rparr>) \<and>
   main scripted doc_loads doc_dumps (example_params ''absent'')
     \<lparr>server = [Inl (HTTPError 404)], sent = []\<rparr> =
     (Inr \<lparr>out_name = ''workstation23'', out_state = ''absent'', changed = False\<rparr>,
      \<lparr>server = [],
       sent = [\<lparr>full_url = ''http://1.2.3.4:8080/dcm4chee-arc/devices/workstation23'',
                data = None,
                headers = [(''Content-Type'', ''application/json'')],
                get_method = DELETE\<rparr>]\<rparr>) \<and>
   fst (main scripted doc_loads doc_dumps (example_params ''absent'')
          \<lparr>server = [Inl (HTTPError 500)], sent = []\<rparr>) = Inl (HTTPError 500)"
proof -
  let ?rq = "\<lparr>full_url = p_api_url (example_params ''absent'') @ ''devices'' @ ''/'' @
                 p_name (example_params ''absent''),
              data = None :: pyval option,
              headers = [(''Content-Type'', ''application/json'')], get_method = DELETE\<rparr>"
  have st: "p_state (example_params ''absent'') = ''absent''"
    by (simp add: example_params_def)
  have srv: "scripted (server \<lparr>server = [out], sent = []\<rparr>) ?rq = (out, [])" for out
    by simp
  note a = absent_deletes
    [where srv = scripted and loads = doc_loads and dumps = doc_dumps
       and out = "Inr \<lparr>status = 204, body = PNone\<rparr>", OF st refl srv, THEN conjunct2]
  note b = absent_deletes
    [where srv = scripted and loads = doc_loads and dumps = doc_dumps
       and out = "Inl (HTTPError 404)", OF st refl srv, THEN conjunct2]
  note c = absent_deletes
    [where srv = scripted and loads = doc_loads and dumps = doc_dumps
       and out = "Inl (HTTPError 500)", OF st refl srv, THEN conjunct2]
  from a b c show ?thesis
    by (simp add: prod_eq_iff example_params_def)
qed

subsection \<open>Reading\<close>

text \<open>
  Claim C4. \<^verbatim>\<open>read\<close> sends one GET request without a body to \<^verbatim>\<open>api_url + 'devices' + '/' + name\<close>.
  When the server answers with a success, the body is parsed by \<^verbatim>\<open>from_json\<close>: the device it yields
  is returned, and an exception of the parser is raised. A 404 answer yields \<^verbatim>\<open>None\<close> and no
  exception. Any other error status is raised as the \<^verbatim>\<open>HTTPError\<close> it is, and so is any other
  failure of the transport.
\<close>

theorem read_outcomes:
  assumes "rq = \<lparr>full_url = api_url @ ''devices'' @ ''/'' @ n, data = None,
                  headers = [(''Content-Type'', ''application/json'')], get_method = GET\<rparr>"
    and "srv (server w) rq = (out, s')"
  shows "snd (DeviceAPI_read srv loads (DeviceAPI_init api_url n) w) =
           \<lparr>server = s', sent = sent w @ [rq]\<rparr> \<and>
         (\<forall>resp d. out = Inr resp \<and> Device_from_json loads (body resp) = Inr d \<longrightarrow>
            fst (DeviceAPI_read srv loads (DeviceAPI_init api_url n) w) = Inr (Some d)) \<and>
         (\<forall>resp e. out = Inr resp \<and> Device_from_json loads (body resp) = Inl e \<longrightarrow>
            fst (DeviceAPI_read srv loads (DeviceAPI_init api_url n) w) = Inl e) \<and>
         (out = Inl (HTTPError 404) \<longrightarrow>
            fst (DeviceAPI_read srv loads (DeviceAPI_init api_url n) w) = Inr None) \<and>
         (\<forall>c. out = Inl (HTTPError c) \<and> c \<noteq> 404 \<longrightarrow>
            fst (DeviceAPI_read srv loads (DeviceAPI_init api_url n) w) = Inl (HTTPError c)) \<and>
         (\<forall>e. out = Inl e \<and> (\<forall>c. e \<noteq> HTTPError c) \<longrightarrow>
            fst (DeviceAPI_read srv loads (DeviceAPI_init api_url n) w) = Inl e)"
proof -
  have rq: "DeviceAPI_request (DeviceAPI_init api_url n) None GET = rq"
    by (simp add: assms(1) DeviceAPI_request_def DeviceAPI_init_def)
  have "srv (server w) (DeviceAPI_request (DeviceAPI_init api_url n) None GET) = (out, s')"
    using assms(2) by (simp only: rq)
  note eq = DeviceAPI_read_eq [of srv w "DeviceAPI_init api_url n" out s' loads, OF this]
  show ?thesis
    unfolding eq rq by (auto split: py_error.splits)
qed

theorem read_outcomes_example:
  "DeviceAPI_read scripted doc_loads (DeviceAPI_init ''http://1.2.3.4:8080/dcm4chee-arc/'' ''workstation23'')
     \<lparr>server = [Inr \<lparr>status = 200, body = Device_payload workstation23\<rparr>], sent = []\<rparr> =
     (Inr (Some workstation23),
      \<lparr>server = [],
       sent = [\<lparr>full_url = ''http://1.2.3.4:8080/dcm4chee-arc/devices/workstation23'',
                data = None,
                headers = [(''Content-Type'', ''application/json'')],
                get_method = GET\<rparr>]\<rparr>) \<and>
   fst (DeviceAPI_read scripted doc_loads
          (DeviceAPI_init ''http://1.2.3.4:8080/dcm4chee-arc/'' ''workstation23'')
          \<lparr>server = [Inr \<lparr>status = 200, body = empty_connections\<rparr>], sent = []\<rparr>) =
     Inl IndexError \<and>
   fst (DeviceAPI_read scripted doc_loads
          (DeviceAPI_init ''http://1.2.3.4:8080/dcm4chee-arc/'' ''workstation23'')
          \<lparr>server = [Inl (HTTPError 404)], sent = []\<rparr>) = Inr None \<and>
   fst (DeviceAPI_read scripted doc_loads
          (DeviceAPI_init ''http://1.2.3.4:8080/dcm4chee-arc/'' ''workstation23'')
          \<lparr>server = [Inl (HTTPError 500)], sent = []\<rparr>) = Inl (HTTPError 500) \<and>
   fst (DeviceAPI_read scripted doc_loads
          (DeviceAPI_init ''http://1.2.3.4:8080/dcm4chee-arc/'' ''workstation23'')
          \<lparr>server = [Inl URLError], sent = []\<rparr>) = Inl URLError"
proof -
  let ?rq = "\<lparr>full_url = ''http://1.2.3.4:8080/dcm4chee-arc/'' @ ''devices'' @ ''/'' @ ''workstation23'',
              data = None :: pyval option,
              headers = [(''Content-Type'', ''application/json'')], get_method = GET\<rparr>"
  let ?ok = "Inr \<lparr>status = 200, body = Device_payload workstation23\<rparr> :: py_error + pyval response"
  let ?bad = "Inr \<lparr>status = 200, body = empty_connections\<rparr> :: py_error + pyval response"
  have 1: "scripted (server \<lparr>server = [out], sent = []\<rparr>) ?rq = (out, [])" for out
    by simp
  have bad: "Device_from_json doc_loads empty_connections = Inl IndexError"
    by (simp add: Device_from_json_def doc_loads_def empty_connections_def py_index_0)
  note a = read_outcomes
    [where srv = scripted and loads = doc_loads and out = ?ok
       and w = "\<lparr>server = [?ok], sent = []\<rparr>", OF refl 1]
  note b = read_outcomes
    [where srv = scripted and loads = doc_loads and out = "Inl (HTTPError 404)"
       and w = "\<lparr>server = [Inl (HTTPError 404)], sent = []\<rparr>", OF refl 1]
  note c = read_outcomes
    [where srv = scripted and loads = doc_loads and out = "Inl (HTTPError 500)"
       and w = "\<lparr>server = [Inl (HTTPError 500)], sent = []\<rparr>", OF refl 1]
  note d = read_outcomes
    [where srv = scripted and loads = doc_loads and out = ?bad
       and w = "\<lparr>server = [?bad], sent = []\<rparr>", OF refl 1]
  note e = read_outcomes
    [where srv = scripted and loads = doc_loads and out = "Inl URLError"
       and w = "\<lparr>server = [Inl URLError], sent = []\<rparr>", OF refl 1]
  from a from_json_payload_workstation23 have
    "DeviceAPI_read scripted doc_loads
       (DeviceAPI_init ''http://1.2.3.4:8080/dcm4chee-arc/'' ''workstation23'')
       \<lparr>server = [?ok], sent = []\<rparr> =
     (Inr (Some workstation23), \<lparr>server = [], sent = [?rq]\<rparr>)"
    by (simp add: prod_eq_iff)
  moreover from d bad have
    "fst (DeviceAPI_read scripted doc_loads
       (DeviceAPI_init ''http://1.2.3.4:8080/dcm4chee-arc/'' ''workstation23'')
       \<lparr>server = [?bad], sent = []\<rparr>) = Inl IndexError"
    by simp
  ultimately show ?thesis
    using b c e by simp
qed

subsection \<open>Creating\<close>

text \<open>
  Claim C5. \<^verbatim>\<open>create\<close> sends one POST request to the resource URL whose body is the serialised
  payload of the device. It returns \<open>True\<close> when the server answers with a success, \<open>False\<close> and no
  exception when the server answers 409, and raises the \<^verbatim>\<open>HTTPError\<close> of any other error status
  (and any other failure of the transport).
\<close>

theorem create_outcomes:
  assumes "rq = \<lparr>full_url = api_url @ ''devices'' @ ''/'' @ n,
                  data = Some (dumps (Device_payload device)),
                  headers = [(''Content-Type'', ''application/json'')], get_method = POST\<rparr>"
    and "srv (server w) rq = (out, s')"
  shows "snd (DeviceAPI_create srv dumps (DeviceAPI_init api_url n) device w) =
           \<lparr>server = s', sent = sent w @ [rq]\<rparr> \<and>
         (\<forall>resp. out = Inr resp \<longrightarrow>
            fst (DeviceAPI_create srv dumps (DeviceAPI_init api_url n) device w) = Inr True) \<and>
         (out = Inl (HTTPError 409) \<longrightarrow>
            fst (DeviceAPI_create srv dumps (DeviceAPI_init api_url n) device w) = Inr False) \<and>
         (\<forall>c. out = Inl (HTTPError c) \<and> c \<noteq> 409 \<longrightarrow>
            fst (DeviceAPI_create srv dumps (DeviceAPI_init api_url n) device w) =
              Inl (HTTPError c)) \<and>
         (\<forall>e. out = Inl e \<and> (\<forall>c. e \<noteq> HTTPError c) \<longrightarrow>
            fst (DeviceAPI_create srv dumps (DeviceAPI_init api_url n) device w) = Inl e)"
proof -
  have rq: "DeviceAPI_request (DeviceAPI_init api_url n) (Some (Device_to_json dumps device)) POST
              = rq"
    by (simp add: assms(1) DeviceAPI_request_def DeviceAPI_init_def Device_to_json_def)
  have "srv (server w)
          (DeviceAPI_request (DeviceAPI_init api_url n) (Some (Device_to_json dumps device)) POST)
        = (out, s')"
    using assms(2) by (simp only: rq)
  note eq = DeviceAPI_create_eq [of srv w "DeviceAPI_init api_url n" dumps device out s', OF this]
  show ?thesis
    unfolding eq rq by (auto split: py_error.splits)
qed

theorem create_outcomes_example:
  "DeviceAPI_create scripted doc_dumps
     (DeviceAPI_init ''http://1.2.3.4:8080/dcm4chee-arc/'' ''workstation23'') workstation23
     \<lparr>server = [Inr \<lparr>status = 204, body = PNone\<rparr>], sent = []\<rparr> =
     (Inr True,
      \<lparr>server = [],
       sent = [\<lparr>full_url = ''http://1.2.3.4:8080/dcm4chee-arc/devices/workstation23'',
                data = Some (Device_payload workstation23),
                headers = [(''Content-Type'', ''application/json'')],
                get_method = POST\<rparr>]\<rparr>) \<and>
   fst (DeviceAPI_create scripted doc_dumps
          (DeviceAPI_init ''http://1.2.3.4:8080/dcm4chee-arc/'' ''workstation23'') workstation23
          \<lparr>server = [Inl (HTTPError 409)], sent = []\<rparr>) = Inr False \<and>
   fst (DeviceAPI_create scripted doc_dumps
          (DeviceAPI_init ''http://1.2.3.4:8080/dcm4chee-arc/'' ''workstation23'') workstation23
          \<lparr>server = [Inl (HTTPError 500)], sent = []\<rparr>) = Inl (HTTPError 500) \<and>
   fst (DeviceAPI_create scripted doc_dumps
          (DeviceAPI_init ''http://1.2.3.4:8080/dcm4chee-arc/'' ''workstation23'') workstation23
          \<lparr>server = [Inl URLError], sent = []\<rparr>) = Inl URLError"
proof -
  let ?rq = "\<lparr>full_url = ''http://1.2.3.4:8080/dcm4chee-arc/'' @ ''devices'' @ ''/'' @ ''workstation23'',
              data = Some (doc_dumps (Device_payload workstation23)),
              headers = [(''Content-Type'', ''application/json'')], get_method = POST\<rparr>"
  let ?ok = "Inr \<lparr>status = 204, body = PNone\<rparr> :: py_error + pyval response"
  have 1: "scripted (server \<lparr>server = [out], sent = []\<rparr>) ?rq = (out, [])" for out
    by simp
  note a = create_outcomes
    [where srv = scripted and dumps = doc_dumps and device = workstation23 and out = ?ok
       and w = "\<lparr>server = [?ok], sent = []\<rparr>", OF refl 1]
  note b = create_outcomes
    [where srv = scripted and dumps = doc_dumps and device = workstation23
       and out = "Inl (HTTPError 409)"
       and w = "\<lparr>server = [Inl (HTTPError 409)], sent = []\<rparr>", OF refl 1]
  note c = create_outcomes
    [where srv = scripted and dumps = doc_dumps and device = workstation23
       and out = "Inl (HTTPError 500)"
       and w = "\<lparr>server = [Inl (HTTPError 500)], sent = []\<rparr>", OF refl 1]
  note d = create_outcomes
    [where srv = scripted and dumps = doc_dumps and device = workstation23
       and out = "Inl URLError"
       and w = "\<lparr>server = [Inl URLError], sent = []\<rparr>", OF refl 1]
  from a b c d show ?thesis
    by (simp add: prod_eq_iff doc_dumps_def)
qed

subsection \<open>Malformed responses\<close>

text \<open>
  Claim C6. Let the text \<open>s\<close> parse to a JSON object in which a required field is missing (the
  device name, the connection array, the application-entity array, the hostname or the port of
  the first connection, or the AE title of the first application entity) or in which the
  connection array or the application-entity array is empty. Then \<^verbatim>\<open>from_json\<close> returns no device:
  it raises \<^verbatim>\<open>KeyError\<close>, \<^verbatim>\<open>IndexError\<close> or \<^verbatim>\<open>TypeError\<close>. The exception passes through
  \<^verbatim>\<open>read\<close> when \<open>s\<close> is the body of the server's answer, and through \<^verbatim>\<open>main\<close> in a run with
  \<^verbatim>\<open>state=present\<close>.
\<close>

theorem from_json_missing_fails:
  assumes "loads s = Inr (PDict obj)"
    and "map_of obj ''dicomDeviceName'' = None \<or>
         map_of obj ''dicomNetworkConnection'' = None \<or>
         map_of obj ''dicomNetworkAE'' = None \<or>
         map_of obj ''dicomNetworkConnection'' = Some (PList []) \<or>
         map_of obj ''dicomNetworkAE'' = Some (PList []) \<or>
         (\<exists>conn conns.
            map_of obj ''dicomNetworkConnection'' = Some (PList (PDict conn # conns)) \<and>
            (map_of conn ''dicomHostname'' = None \<or> map_of conn ''dicomPort'' = None)) \<or>
         (\<exists>ae aes.
            map_of obj ''dicomNetworkAE'' = Some (PList (PDict ae # aes)) \<and>
            map_of ae ''dicomAETitle'' = None)"
  shows "\<exists>e. e \<in> {KeyError, IndexError, TypeError} \<and>
           Device_from_json loads s = Inl e \<and>
           (srv (server w) (DeviceAPI_request self None GET) = (Inr resp, s') \<and> body resp = s
              \<longrightarrow> fst (DeviceAPI_read srv loads self w) = Inl e) \<and>
           (p_state p = ''present'' \<and>
            srv (server w) (DeviceAPI_request (DeviceAPI_init (p_api_url p) (p_name p)) None GET) =
              (Inr resp, s') \<and> body resp = s
              \<longrightarrow> fst (main srv loads dumps p w) = Inl e)"
proof (cases "Device_from_json loads s")
  case (Inr d)
  from from_json_Inr_shape [OF Inr] assms show ?thesis
    by (elim exE conjE) auto
next
  case (Inl e)
  then have e: "e \<in> {KeyError, IndexError, TypeError}"
    using assms(1) by (rule from_json_errors)
  have r: "fst (DeviceAPI_read srv loads self' w) = Inl e"
    if "srv (server w) (DeviceAPI_request self' None GET) = (Inr resp, s')" "body resp = s"
    for self'
    using that Inl by (simp add: DeviceAPI_read_eq [of srv w self' "Inr resp" s'])
  show ?thesis
    using e Inl r main_read_error [of p srv loads w e dumps] by blast
qed

theorem from_json_missing_fails_example:
  "Device_from_json doc_loads empty_connections = Inl IndexError \<and>
   Device_from_json doc_loads missing_port = Inl KeyError \<and>
   fst (DeviceAPI_read scripted doc_loads
          (DeviceAPI_init ''http://1.2.3.4:8080/dcm4chee-arc/'' ''workstation23'')
          \<lparr>server = [Inr \<lparr>status = 200, body = missing_port\<rparr>], sent = []\<rparr>) =
     Inl KeyError \<and>
   fst (main scripted doc_loads doc_dumps (example_params ''present'')
         \<lparr>server = [Inr \<lparr>status = 200, body = missing_port\<rparr>], sent = []\<rparr>) =
     Inl KeyError \<and>
   fst (main scripted doc_loads doc_dumps (example_params ''present'')
         \<lparr>server = [Inr \<lparr>status = 200, body = empty_connections\<rparr>], sent = []\<rparr>) =
     Inl IndexError"
proof -
  have 1: "Device_from_json doc_loads empty_connections = Inl IndexError"
    by (simp add: Device_from_json_def doc_loads_def empty_connections_def py_index_0)
  have 2: "Device_from_json doc_loads missing_port = Inl KeyError"
    by (simp add: Device_from_json_def doc_loads_def missing_port_def py_index_0)
  have "\<exists>e. e \<in> {KeyError, IndexError, TypeError} \<and>
          Device_from_json doc_loads missing_port = Inl e \<and>
          fst (DeviceAPI_read scripted doc_loads
                (DeviceAPI_init ''http://1.2.3.4:8080/dcm4chee-arc/'' ''workstation23'')
                \<lparr>server = [Inr \<lparr>status = 200, body = missing_port\<rparr>], sent = []\<rparr>) = Inl e \<and>
          fst (main scripted doc_loads doc_dumps (example_params ''present'')
                \<lparr>server = [Inr \<lparr>status = 200, body = missing_port\<rparr>], sent = []\<rparr>) = Inl e"
    using from_json_missing_fails
      [where loads = doc_loads and s = missing_port
         and obj = "[(''dicomDeviceName'', PStr ''workstation23''),
                     (''dicomNetworkConnection'',
                        PList [PDict [(''dicomHostname'', PStr ''192.168.0.100'')]]),
                     (''dicomNetworkAE'', PList [PDict [(''dicomAETitle'', PStr ''HELLOWORLD'')]])]"
         and srv = scripted
         and self = "DeviceAPI_init ''http://1.2.3.4:8080/dcm4chee-arc/'' ''workstation23''"
         and w = "\<lparr>server = [Inr \<lparr>status = 200, body = missing_port\<rparr>], sent = []\<rparr>"
         and resp = "\<lparr>status = 200, body = missing_port\<rparr>" and s' = "[]"
         and p = "example_params ''present''" and dumps = doc_dumps]
    by (simp add: doc_loads_def missing_port_def example_params_def)
  moreover have "\<exists>e. e \<in> {KeyError, IndexError, TypeError} \<and>
          Device_from_json doc_loads empty_connections = Inl e \<and>
          fst (main scripted doc_loads doc_dumps (example_params ''present'')
                \<lparr>server = [Inr \<lparr>status = 200, body = empty_connections\<rparr>], sent = []\<rparr>) = Inl e"
    using from_json_missing_fails
      [where loads = doc_loads and s = empty_connections
         and obj = "[(''dicomDeviceName'', PStr ''workstation23''),
                     (''dicomNetworkConnection'', PList []),
                     (''dicomNetworkAE'', PList [PDict [(''dicomAETitle'', PStr ''HELLOWORLD'')]])]"
         and srv = scripted
         and self = "DeviceAPI_init ''http://1.2.3.4:8080/dcm4chee-arc/'' ''workstation23''"
         and w = "\<lparr>server = [Inr \<lparr>status = 200, body = empty_connections\<rparr>], sent = []\<rparr>"
         and resp = "\<lparr>status = 200, body = empty_connections\<rparr>" and s' = "[]"
         and p = "example_params ''present''" and dumps = doc_dumps]
    by (simp add: doc_loads_def empty_connections_def example_params_def) blast
  ultimately show ?thesis
    using 1 2 by auto
qed

subsection \<open>Equality of devices\<close>

text \<open>
  Claim C7. \<^verbatim>\<open>Device.__eq__\<close> compares the two attribute dictionaries, and that is the same
  as comparing the four fields: two devices are equal exactly when their names, hosts,
  ports and AE titles are equal (each compared by Python's \<^verbatim>\<open>==\<close>). A device equals itself,
  and replacing any one field by a value unequal to the old one makes the device unequal to
  the original. For devices built as \<^verbatim>\<open>main\<close> builds them (three strings and an integer),
  equality is equality of the three strings and the integer.
\<close>

theorem Device_eq_structural:
  "(Device_eq a b \<longleftrightarrow>
      py_eq (name a) (name b) \<and> py_eq (host a) (host b) \<and>
      py_eq (port a) (port b) \<and> py_eq (aetitle a) (aetitle b)) \<and>
   Device_eq a a \<and>
   (\<not> py_eq (name a) v \<longrightarrow> \<not> Device_eq a (a\<lparr>name := v\<rparr>)) \<and>
   (\<not> py_eq (host a) v \<longrightarrow> \<not> Device_eq a (a\<lparr>host := v\<rparr>)) \<and>
   (\<not> py_eq (port a) v \<longrightarrow> \<not> Device_eq a (a\<lparr>port := v\<rparr>)) \<and>
   (\<not> py_eq (aetitle a) v \<longrightarrow> \<not> Device_eq a (a\<lparr>aetitle := v\<rparr>)) \<and>
   (Device_eq (Device_init (PStr n) (PStr h) (PInt p) (PStr t))
              (Device_init (PStr n') (PStr h') (PInt p') (PStr t')) \<longleftrightarrow>
      n = n' \<and> h = h' \<and> p = p' \<and> t = t')"
  by (simp add: Device_eq_iff py_eq_refl Device_init_def)

theorem Device_eq_structural_example:
  "Device_eq workstation23 workstation23 \<and>
   \<not> py_eq (name workstation23) (PStr ''workstation42'') \<and>
   \<not> Device_eq workstation23 (workstation23\<lparr>name := PStr ''workstation42''\<rparr>) \<and>
   \<not> py_eq (host workstation23) (PStr ''192.168.0.200'') \<and>
   \<not> Device_eq workstation23 (workstation23\<lparr>host := PStr ''192.168.0.200''\<rparr>) \<and>
   \<not> py_eq (port workstation23) (PInt 104) \<and>
   \<not> Device_eq workstation23 (workstation23\<lparr>port := PInt 104\<rparr>) \<and>
   \<not> py_eq (aetitle workstation23) (PStr ''CHUNKYBACON'') \<and>
   \<not> Device_eq workstation23 (workstation23\<lparr>aetitle := PStr ''CHUNKYBACON''\<rparr>) \<and>
   \<not> Device_eq (Device_init (PStr ''workstation23'') (PStr ''192.168.0.100'') (PInt 11112)
                  (PStr ''HELLOWORLD''))
               (Device_init (PStr ''workstation23'') (PStr ''192.168.0.100'') (PInt 104)
                  (PStr ''HELLOWORLD''))"
proof -
  have n: "\<not> py_eq (name workstation23) (PStr ''workstation42'')"
    and h: "\<not> py_eq (host workstation23) (PStr ''192.168.0.200'')"
    and p: "\<not> py_eq (port workstation23) (PInt 104)"
    and t: "\<not> py_eq (aetitle workstation23) (PStr ''CHUNKYBACON'')"
    by (simp_all add: workstation23_def Device_init_def)
  from n h p t
    Device_eq_structural [of workstation23 workstation23 "PStr ''workstation42''"]
    Device_eq_structural [of workstation23 workstation23 "PStr ''192.168.0.200''"]
    Device_eq_structural [of workstation23 workstation23 "PInt 104"]
    Device_eq_structural [of workstation23 workstation23 "PStr ''CHUNKYBACON''"
      "''workstation23''" "''192.168.0.100''" 11112 "''HELLOWORLD''"
      "''workstation23''" "''192.168.0.100''" 104 "''HELLOWORLD''"]
  show ?thesis
    by simp
qed

subsection \<open>The number of requests\<close>

text \<open>
  Claim C8. Whatever the parameters, the server and the codec are, the requests a run of
  \<^verbatim>\<open>main\<close> adds to those sent before are at most two, at most one of them a GET and at most
  one of them a POST, PUT or DELETE.
\<close>

theorem at_most_two_requests:
  "\<exists>rs. sent (snd (main srv loads dumps p w)) = sent w @ rs \<and>
     length rs \<le> 2 \<and>
     length (filter (\<lambda>r. get_method r = GET) rs) \<le> 1 \<and>
     length (filter (\<lambda>r. get_method r = POST \<or> get_method r = PUT \<or> get_method r = DELETE) rs)
       \<le> 1"
proof -
  from main_requests [of srv loads dumps p w]
  obtain rs where rs: "sent (snd (main srv loads dumps p w)) = sent w @ rs"
    and shape: "rs = [] \<or>
      (\<exists>g. rs = [g] \<and> get_method g = GET) \<or>
      (\<exists>g x. rs = [g, x] \<and> get_method g = GET \<and> get_method x = POST) \<or>
      (\<exists>g x. rs = [g, x] \<and> get_method g = GET \<and> get_method x = PUT) \<or>
      (\<exists>x. rs = [x] \<and> get_method x = DELETE)"
    by blast
  from shape have "length rs \<le> 2 \<and>
     length (filter (\<lambda>r. get_method r = GET) rs) \<le> 1 \<and>
     length (filter (\<lambda>r. get_method r = POST \<or> get_method r = PUT \<or> get_method r = DELETE) rs)
       \<le> 1"
    by auto
  with rs show ?thesis by blast
qed

theorem at_most_two_requests_example:
  "\<exists>rs. sent (snd (main scripted doc_loads doc_dumps (example_params ''present'')
                     \<lparr>server = [Inl (HTTPError 404), Inr \<lparr>status = 204, body = PNone\<rparr>],
                      sent = []\<rparr>)) = rs \<and>
     length rs \<le> 2 \<and>
     length (filter (\<lambda>r. get_method r = GET) rs) \<le> 1 \<and>
     length (filter (\<lambda>r. get_method r = POST \<or> get_method r = PUT \<or> get_method r = DELETE) rs)
       \<le> 1"
  using at_most_two_requests
    [of scripted doc_loads doc_dumps "example_params ''present''"
        "\<lparr>server = [Inl (HTTPError 404), Inr \<lparr>status = 204, body = PNone\<rparr>], sent = []\<rparr>"]
  by simp

subsection \<open>What parsing depends on\<close>

text \<open>
  Claim C9. Let two texts parse to JSON objects that both carry the device name \<open>n\<close>, a
  connection array whose first entry is an object with hostname \<open>h\<close> and port \<open>p\<close>, and an
  application-entity array whose first entry is an object with AE title \<open>t\<close>. Whatever else
  the two objects hold (flags, connection references, other keys, further entries of either
  array), \<^verbatim>\<open>from_json\<close> returns the same device for both, with exactly these four values, and
  \<^verbatim>\<open>__eq__\<close> finds the two results equal.
\<close>

theorem from_json_depends_on_four_values:
  assumes "loads s1 = Inr (PDict obj1)"
    and "map_of obj1 ''dicomDeviceName'' = Some n"
    and "map_of obj1 ''dicomNetworkConnection'' = Some (PList (PDict conn1 # conns1))"
    and "map_of conn1 ''dicomHostname'' = Some h"
    and "map_of conn1 ''dicomPort'' = Some p"
    and "map_of obj1 ''dicomNetworkAE'' = Some (PList (PDict ae1 # aes1))"
    and "map_of ae1 ''dicomAETitle'' = Some t"
    and "loads s2 = Inr (PDict obj2)"
    and "map_of obj2 ''dicomDeviceName'' = Some n"
    and "map_of obj2 ''dicomNetworkConnection'' = Some (PList (PDict conn2 # conns2))"
    and "map_of conn2 ''dicomHostname'' = Some h"
    and "map_of conn2 ''dicomPort'' = Some p"
    and "map_of obj2 ''dicomNetworkAE'' = Some (PList (PDict ae2 # aes2))"
    and "map_of ae2 ''dicomAETitle'' = Some t"
  shows "\<exists>d1 d2. Device_from_json loads s1 = Inr d1 \<and> Device_from_json loads s2 = Inr d2 \<and>
           d1 = d2 \<and> Device_eq d1 d2 \<and>
           name d1 = n \<and> host d1 = h \<and> port d1 = p \<and> aetitle d1 = t"
proof -
  have "Device_from_json loads s1 = Inr (Device_init n h p t)"
    using assms(1-7) by (rule from_json_well_formed)
  moreover have "Device_from_json loads s2 = Inr (Device_init n h p t)"
    using assms(8-14) by (rule from_json_well_formed)
  ultimately show ?thesis
    by (simp add: Device_eq_refl Device_init_def)
qed

theorem from_json_depends_on_four_values_example:
  "\<exists>d1 d2. Device_from_json doc_loads (Device_payload workstation23) = Inr d1 \<and>
     Device_from_json doc_loads other_flags = Inr d2 \<and>
     d1 = d2 \<and> Device_eq d1 d2 \<and>
     name d1 = PStr ''workstation23'' \<and> host d1 = PStr ''192.168.0.100'' \<and>
     port d1 = PInt 11112 \<and> aetitle d1 = PStr ''HELLOWORLD''"
  using from_json_depends_on_four_values
    [where loads = doc_loads and ?s1.0 = "Device_payload workstation23" and ?s2.0 = other_flags
       and n = "PStr ''workstation23''" and h = "PStr ''192.168.0.100''"
       and p = "PInt 11112" and t = "PStr ''HELLOWORLD''"
       and ?obj1.0 =
         "[(''dicomDeviceName'', PStr ''workstation23''),
           (''dicomInstalled'', PBool True),
           (''dicomNetworkConnection'',
              PList
                [PDict
                   [(''cn'', PStr ''dicom''),
                    (''dicomHostname'', PStr ''192.168.0.100''),
                    (''dicomPort'', PInt 11112)]]),
           (''dicomNetworkAE'',
              PList
                [PDict
                   [(''dicomAETitle'', PStr ''HELLOWORLD''),
                    (''dicomAssociationInitiator'', PBool True),
                    (''dicomAssociationAcceptor'', PBool True),
                    (''dicomNetworkConnectionReference'',
                       PList [PStr ''/dicomNetworkConnection/0''])]])]"
       and ?conn1.0 =
         "[(''cn'', PStr ''dicom''),
           (''dicomHostname'', PStr ''192.168.0.100''),
           (''dicomPort'', PInt 11112)]"
       and ?conns1.0 = "[]"
       and ?ae1.0 =
         "[(''dicomAETitle'', PStr ''HELLOWORLD''),
           (''dicomAssociationInitiator'', PBool True),
           (''dicomAssociationAcceptor'', PBool True),
           (''dicomNetworkConnectionReference'', PList [PStr ''/dicomNetworkConnection/0''])]"
       and ?aes1.0 = "[]"
       and ?obj2.0 =
         "[(''dicomInstalled'', PBool False),
           (''dicomVendorData'', PBool True),
           (''dicomNetworkAE'',
              PList
                [PDict
                   [(''dicomAssociationInitiator'', PBool False),
                    (''dicomAETitle'', PStr ''HELLOWORLD''),
                    (''dicomNetworkConnectionReference'', PList [])],
                 PDict [(''dicomAETitle'', PStr ''CHUNKYBACON'')]]),
           (''dicomNetworkConnection'',
              PList
                [PDict
                   [(''dicomPort'', PInt 11112),
                    (''dicomHostname'', PStr ''192.168.0.100'')],
                 PDict
                   [(''cn'', PStr ''dicom-tls''),
                    (''dicomHostname'', PStr ''192.168.0.200''),
                    (''dicomPort'', PInt 2762)]]),
           (''dicomDeviceName'', PStr ''workstation23'')]"
       and ?conn2.0 =
         "[(''dicomPort'', PInt 11112), (''dicomHostname'', PStr ''192.168.0.100'')]"
       and ?conns2.0 =
         "[PDict
             [(''cn'', PStr ''dicom-tls''),
              (''dicomHostname'', PStr ''192.168.0.200''),
              (''dicomPort'', PInt 2762)]]"
       and ?ae2.0 =
         "[(''dicomAssociationInitiator'', PBool False),
           (''dicomAETitle'', PStr ''HELLOWORLD''),
           (''dicomNetworkConnectionReference'', PList [])]"
       and ?aes2.0 = "[PDict [(''dicomAETitle'', PStr ''CHUNKYBACON'')]]"]
  by (simp add: doc_loads_def Device_payload_def workstation23_def other_flags_def Device_init_def)

subsection \<open>Inequality of devices\<close>

text \<open>
  Claim C10. \<^verbatim>\<open>Device.__ne__\<close> is the negation of \<^verbatim>\<open>Device.__eq__\<close>: for any two devices
  exactly one of the two comparisons is true.
\<close>

theorem Device_ne_negates_eq:
  "(Device_ne a b \<longleftrightarrow> \<not> Device_eq a b) \<and>
   (Device_eq a b \<or> Device_ne a b) \<and> \<not> (Device_eq a b \<and> Device_ne a b)"
  by (simp add: Device_ne_def)

theorem Device_ne_negates_eq_example:
  "Device_ne (Device_init (PStr ''ws1'') (PStr ''10.0.0.1'') (PInt 11112) (PStr ''WS1''))
             (Device_init (PStr ''ws1'') (PStr ''10.0.0.1'') (PInt 104) (PStr ''WS1'')) \<and>
   \<not> Device_ne (Device_init (PStr ''ws1'') (PStr ''10.0.0.1'') (PInt 104) (PStr ''WS1''))
               (Device_init (PStr ''ws1'') (PStr ''10.0.0.1'') (PInt 104) (PStr ''WS1''))"
  using Device_ne_negates_eq
    [of "Device_init (PStr ''ws1'') (PStr ''10.0.0.1'') (PInt 11112) (PStr ''WS1'')"
        "Device_init (PStr ''ws1'') (PStr ''10.0.0.1'') (PInt 104) (PStr ''WS1'')"]
    Device_ne_negates_eq
    [of "Device_init (PStr ''ws1'') (PStr ''10.0.0.1'') (PInt 104) (PStr ''WS1'')"
        "Device_init (PStr ''ws1'') (PStr ''10.0.0.1'') (PInt 104) (PStr ''WS1'')"]
  by (simp add: Device_eq_iff Device_init_def)

end
